theory Spec2Isabelle
  imports Complex_Main
begin

section \<open>Link functions of GPy/likelihoods/link\_functions.py\<close>

text \<open>
  The module computes on IEEE doubles, element by element over numpy arrays. A method
  that numpy applies elementwise is given on one element, and a one-dimensional array
  is a list. A \<open>raise\<close> is a value \<open>Inl\<close>.

  Two levels of arithmetic are used. \<open>SigmoidalInverse\<close>, \<open>Heaviside\<close> and the gradient
  accumulator of \<open>Probit\<close> are embedded in the real numbers; arithmetic that leaves the
  reals there (a division by zero, the logarithm of a non-positive number, which numpy
  turns into an infinity or a NaN with a RuntimeWarning) has the value \<open>None\<close>. The
  links \<open>Log\<close>, \<open>Cloglog\<close> and \<open>Probit\<close>, whose properties turn on the range of a double,
  are embedded in the type \<open>dbl\<close>: a real number, an infinity or a NaN, where every
  result is brought into the range of binary64 by \<open>rnd\<close>.
\<close>

subsection \<open>Errors and partial arithmetic\<close>

datatype exn = NotImplementedError string | TypeError string

definition fdiv :: "real \<Rightarrow> real \<Rightarrow> real option" where
  "fdiv a b = (if b = 0 then None else Some (a / b))"

definition flog :: "real \<Rightarrow> real option" where
  "flog a = (if 0 < a then Some (ln a) else None)"

definition obind :: "'a option \<Rightarrow> ('a \<Rightarrow> 'b option) \<Rightarrow> 'b option" where
  "obind m k = (case m of None \<Rightarrow> None | Some a \<Rightarrow> k a)"

subsection \<open>Doubles up to rounding\<close>

text \<open>
  A double is a finite number, \<open>+inf\<close>, \<open>-inf\<close> or a NaN. \<open>rnd\<close> takes the exact result
  of an operation to the double that holds it: an infinity from \<open>float_over\<close> on, the
  midpoint \<open>2 ^ 1024 - 2 ^ 970\<close> between the largest double and \<open>2 ^ 1024\<close>; zero up to
  \<open>float_under\<close>, half the least subnormal \<open>1 / 2 ^ 1074\<close>; the number itself in between.
  The rounding of the last bit inside the range is not modelled, and zero has no
  sign.
\<close>

datatype dbl = Num real | PInf | NInf | NaN

definition float_over :: real where
  "float_over = 2 ^ 1024 - 2 ^ 970"

definition float_under :: real where
  "float_under = 1 / 2 ^ 1075"

definition rnd :: "real \<Rightarrow> dbl" where
  "rnd x = (if float_over \<le> x then PInf
            else if x \<le> - float_over then NInf
            else if \<bar>x\<bar> \<le> float_under then Num 0
            else Num x)"

fun dneg :: "dbl \<Rightarrow> dbl" where
  "dneg (Num x) = Num (- x)"
| "dneg PInf = NInf"
| "dneg NInf = PInf"
| "dneg NaN = NaN"

fun dmul :: "dbl \<Rightarrow> dbl \<Rightarrow> dbl" where
  "dmul (Num x) (Num y) = rnd (x * y)"
| "dmul NaN b = NaN"
| "dmul a NaN = NaN"
| "dmul (Num x) PInf = (if x = 0 then NaN else if 0 < x then PInf else NInf)"
| "dmul (Num x) NInf = (if x = 0 then NaN else if 0 < x then NInf else PInf)"
| "dmul PInf (Num y) = (if y = 0 then NaN else if 0 < y then PInf else NInf)"
| "dmul NInf (Num y) = (if y = 0 then NaN else if 0 < y then NInf else PInf)"
| "dmul PInf PInf = PInf"
| "dmul PInf NInf = NInf"
| "dmul NInf PInf = NInf"
| "dmul NInf NInf = PInf"

fun dsub :: "dbl \<Rightarrow> dbl \<Rightarrow> dbl" where
  "dsub (Num x) (Num y) = rnd (x - y)"
| "dsub NaN b = NaN"
| "dsub a NaN = NaN"
| "dsub PInf PInf = NaN"
| "dsub NInf NInf = NaN"
| "dsub PInf b = PInf"
| "dsub NInf b = NInf"
| "dsub (Num x) PInf = NInf"
| "dsub (Num x) NInf = PInf"

text \<open>\<open>np.exp\<close>, and the comparisons \<open><=\<close> and \<open><\<close>, which are false on a NaN.\<close>

fun np_exp :: "dbl \<Rightarrow> dbl" where
  "np_exp (Num x) = rnd (exp x)"
| "np_exp PInf = PInf"
| "np_exp NInf = Num 0"
| "np_exp NaN = NaN"

fun dle :: "dbl \<Rightarrow> dbl \<Rightarrow> bool" where
  "dle (Num x) (Num y) = (x \<le> y)"
| "dle NaN b = False"
| "dle a NaN = False"
| "dle NInf b = True"
| "dle a PInf = True"
| "dle a b = False"

fun dlt :: "dbl \<Rightarrow> dbl \<Rightarrow> bool" where
  "dlt (Num x) (Num y) = (x < y)"
| "dlt NaN b = False"
| "dlt a NaN = False"
| "dlt PInf b = False"
| "dlt a NInf = False"
| "dlt a b = True"

subsection \<open>Helpers imported from GPy.util\<close>

text \<open>
  Modelled from the spec: \<open>safe_exp\<close> of GPy/util/misc.py, which is not among the
  sources. The specification describes it as the variant of the exponential that
  clamps the argument into a representable range before applying the operation, so
  that an extreme latent value gives a saturated but finite result. The bound of the
  range is the parameter \<open>cap\<close>; the clamp is \<open>np.clip(f, -inf, cap)\<close>.
\<close>

fun clip_upper :: "dbl \<Rightarrow> real \<Rightarrow> dbl" where
  "clip_upper (Num x) cap = Num (min x cap)"
| "clip_upper PInf cap = Num cap"
| "clip_upper NInf cap = NInf"
| "clip_upper NaN cap = NaN"

definition safe_exp :: "real \<Rightarrow> dbl \<Rightarrow> dbl" where
  "safe_exp cap f = np_exp (clip_upper f cap)"

text \<open>
  Modelled from the spec: \<open>std_norm_pdf\<close> and \<open>std_norm_cdf\<close> of
  GPy/util/univariate\_Gaussian.py, which is not among the sources. The
  specification names them as the density and the cumulative distribution function
  of the standard normal law. The density is \<open>exp (- x\<^sup>2 / 2) / sqrt (2 * pi)\<close>. The
  distribution function is given by its Maclaurin series
  \<open>1 / 2 + (\<Sum>n. (- 1 / 2) ^ n * x ^ (2 * n + 1) / (fact n * (2 * n + 1))) / sqrt (2 * pi)\<close>:
  it is the function whose value at \<open>0\<close> is \<open>1 / 2\<close> and whose derivative is the
  density (lemmas \<open>std_norm_cdf_zero\<close>, \<open>DERIV_std_norm_cdf\<close> and
  \<open>std_norm_cdf_unique\<close> below).
\<close>

definition std_norm_pdf :: "real \<Rightarrow> real" where
  "std_norm_pdf x = exp (- (x\<^sup>2) / 2) / sqrt (2 * pi)"

definition cdf_coeff :: "nat \<Rightarrow> real" where
  "cdf_coeff n = (- 1 / 2) ^ n / (fact n * (2 * real n + 1))"

definition cdf_series :: "real \<Rightarrow> real" where
  "cdf_series t = (\<Sum>n. cdf_coeff n * t ^ n)"

definition std_norm_cdf :: "real \<Rightarrow> real" where
  "std_norm_cdf x = 1 / 2 + x * cdf_series (x\<^sup>2) / sqrt (2 * pi)"

text \<open>
  On doubles the two functions return the value brought into range, and the limits at
  the infinities. A distribution function is a probability: its value is kept within
  \<open>[0, 1]\<close>.
\<close>

fun std_norm_pdf_d :: "dbl \<Rightarrow> dbl" where
  "std_norm_pdf_d (Num x) = rnd (std_norm_pdf x)"
| "std_norm_pdf_d PInf = Num 0"
| "std_norm_pdf_d NInf = Num 0"
| "std_norm_pdf_d NaN = NaN"

fun std_norm_cdf_d :: "dbl \<Rightarrow> dbl" where
  "std_norm_cdf_d (Num x) = rnd (max 0 (min 1 (std_norm_cdf x)))"
| "std_norm_cdf_d PInf = Num 1"
| "std_norm_cdf_d NInf = Num 0"
| "std_norm_cdf_d NaN = NaN"

subsection \<open>class SigmoidalInverse\<close>

text \<open>
  \<^verbatim>\<open>def f(self, x): return 2./(1.+np.exp(-1./x))-1.\<close>

  \<^verbatim>\<open>def finv(self, x): return -1./np.log(2./(x+1.)-1)\<close>
\<close>

definition SigmoidalInverse_f :: "real \<Rightarrow> real option" where
  "SigmoidalInverse_f x =
     obind (fdiv (- 1) x) (\<lambda>a.
     obind (fdiv 2 (1 + exp a)) (\<lambda>b.
     Some (b - 1)))"

definition SigmoidalInverse_finv :: "real \<Rightarrow> real option" where
  "SigmoidalInverse_finv x =
     obind (fdiv 2 (x + 1)) (\<lambda>a.
     obind (flog (a - 1)) (\<lambda>l.
     fdiv (- 1) l))"

text \<open>
  \<open>np.finfo(float).eps\<close> is the machine epsilon of IEEE binary64, the gap between
  \<open>1.0\<close> and the next double.
\<close>

definition float_eps :: real where
  "float_eps = 1 / 2 ^ 52"

text \<open>
  The positive finite doubles: \<open>float64_value e m\<close> is the value of the double with
  biased exponent field \<open>e < 2047\<close> and fraction field \<open>m < 2 ^ 52\<close> (subnormal when
  \<open>e = 0\<close>).
\<close>

definition float64_value :: "nat \<Rightarrow> nat \<Rightarrow> real" where
  "float64_value e m =
     (if e = 0 then real m / 2 ^ 1074
      else real (2 ^ 52 + m) * 2 ^ (e - 1) / 2 ^ 1074)"

definition float64_fields :: "nat \<Rightarrow> nat \<Rightarrow> bool" where
  "float64_fields e m \<longleftrightarrow> e < 2047 \<and> m < 2 ^ 52"

text \<open>
  \<open>initialize\<close> works on a one-dimensional array, a list here, and prints; the lines
  printed so far are threaded through as a list of strings.

  \<^verbatim>\<open>if any(f == 0): print("Warning: changing parameters to satisfy constraints")\<close>

  \<^verbatim>\<open>f[f==0] = np.finfo(float).eps\<close>

  \<^verbatim>\<open>return f\<close>
\<close>

definition initialize :: "real list \<Rightarrow> string list \<Rightarrow> real list \<times> string list" where
  "initialize f out =
     (let out' = (if list_ex (\<lambda>x. x = 0) f
                  then out @ [''Warning: changing parameters to satisfy constraints'']
                  else out);
          f' = map (\<lambda>x. if x = 0 then float_eps else x) f
      in (f', out'))"

subsection \<open>class GPTransformation\<close>

text \<open>The base class: every method is a stub that raises.\<close>

definition GPTransformation_transf :: "real \<Rightarrow> exn + real" where
  "GPTransformation_transf f = Inl (NotImplementedError [])"

definition GPTransformation_dtransf_df :: "real \<Rightarrow> exn + real" where
  "GPTransformation_dtransf_df f = Inl (NotImplementedError [])"

definition GPTransformation_d2transf_df2 :: "real \<Rightarrow> exn + real" where
  "GPTransformation_d2transf_df2 f = Inl (NotImplementedError [])"

definition GPTransformation_d3transf_df3 :: "real \<Rightarrow> exn + real" where
  "GPTransformation_d3transf_df3 f = Inl (NotImplementedError [])"

subsection \<open>classes Probit and Probit2\<close>

text \<open>
  \<open>nu\<close> is a \<open>Param\<close> of the parameterization framework: a value, the gradient that
  the optimizer reads, whether the value is held fixed, and the constraint it was
  created with. An instance of \<open>Probit\<close> or of \<open>Probit2\<close> owns one.
\<close>

datatype transformation = Logistic real real | Logexp

record Param =
  param_value :: real
  gradient :: real
  param_fixed :: bool
  constraint :: transformation

record Probit =
  name :: string
  nu :: Param

text \<open>
  The constructors start with a call of \<open>super\<close>. \<open>super(t, obj)\<close> needs \<open>obj\<close> to be an
  instance of \<open>t\<close>, that is, \<open>t\<close> to be in the method resolution order of the class of
  \<open>obj\<close>; it raises \<open>TypeError\<close> otherwise. The classes of the framework between
  \<open>Parameterized\<close> and \<open>object\<close> are left out of the order.
\<close>

datatype pyclass = C_object | C_Parameterized | C_GPTransformation | C_Probit | C_Probit2

fun mro :: "pyclass \<Rightarrow> pyclass list" where
  "mro C_object = [C_object]"
| "mro C_Parameterized = [C_Parameterized, C_object]"
| "mro C_GPTransformation = [C_GPTransformation, C_Parameterized, C_object]"
| "mro C_Probit = [C_Probit, C_GPTransformation, C_Parameterized, C_object]"
| "mro C_Probit2 = [C_Probit2, C_GPTransformation, C_Parameterized, C_object]"

fun mro_after :: "pyclass \<Rightarrow> pyclass list \<Rightarrow> pyclass list" where
  "mro_after t [] = []"
| "mro_after t (k # ks) = (if k = t then ks else mro_after t ks)"

definition py_super :: "pyclass \<Rightarrow> pyclass \<Rightarrow> exn + pyclass list" where
  "py_super t c =
     (if t \<in> set (mro c) then Inr (mro_after t (mro c))
      else Inl (TypeError ''super(type, obj): obj must be an instance or subtype of type''))"

text \<open>
  \<^verbatim>\<open>GPTransformation.__init__(self, name): super(GPTransformation, self).__init__(name)\<close>,
  on an instance of class \<open>c\<close>; the constructor of \<open>Parameterized\<close> keeps the name.
\<close>

definition GPTransformation_init :: "pyclass \<Rightarrow> string \<Rightarrow> exn + string" where
  "GPTransformation_init c nm =
     (case py_super C_GPTransformation c of Inl e \<Rightarrow> Inl e | Inr rest \<Rightarrow> Inr nm)"

text \<open>
  \<^verbatim>\<open>Probit.__init__(self, nu, fixed, name): super(Probit, self).__init__(name)\<close>, then
  \<^verbatim>\<open>self.nu = Param('nu', float(nu), Logistic(-1e5,1e5))\<close>, fixed when \<open>fixed\<close>. \<open>g0\<close> is
  the gradient that the framework gives a new \<open>Param\<close>.

  \<^verbatim>\<open>Probit2.__init__(self, nu, fixed, name): super(Probit, self).__init__(name)\<close>, with
  the class \<open>Probit\<close> in the call of \<open>super\<close> although \<open>self\<close> is a \<open>Probit2\<close>, then
  \<^verbatim>\<open>self.nu = Param('nu', float(nu), Logexp())\<close>.
\<close>

definition Probit_init :: "real \<Rightarrow> real \<Rightarrow> bool \<Rightarrow> string \<Rightarrow> exn + Probit" where
  "Probit_init g0 nu0 fixed nm =
     (case py_super C_Probit C_Probit of
        Inl e \<Rightarrow> Inl e
      | Inr rest \<Rightarrow>
          (case GPTransformation_init C_Probit nm of
             Inl e \<Rightarrow> Inl e
           | Inr n \<Rightarrow>
               Inr \<lparr>name = n,
                    nu = \<lparr>param_value = nu0, gradient = g0, param_fixed = fixed,
                          constraint = Logistic (- 100000) 100000\<rparr>\<rparr>))"

definition Probit2_init :: "real \<Rightarrow> real \<Rightarrow> bool \<Rightarrow> string \<Rightarrow> exn + Probit" where
  "Probit2_init g0 nu0 fixed nm =
     (case py_super C_Probit C_Probit2 of
        Inl e \<Rightarrow> Inl e
      | Inr rest \<Rightarrow>
          (case GPTransformation_init C_Probit2 nm of
             Inl e \<Rightarrow> Inl e
           | Inr n \<Rightarrow>
               Inr \<lparr>name = n,
                    nu = \<lparr>param_value = nu0, gradient = g0, param_fixed = fixed,
                          constraint = Logexp\<rparr>\<rparr>))"

text \<open>
  \<^verbatim>\<open>def transf(self,f): return std_norm_cdf(f*self.nu)\<close>

  \<^verbatim>\<open>def dtransf_df(self,f): return std_norm_pdf(f*self.nu)*self.nu\<close>
\<close>

definition Probit_transf :: "Probit \<Rightarrow> dbl \<Rightarrow> dbl" where
  "Probit_transf self f = std_norm_cdf_d (dmul f (Num (param_value (nu self))))"

definition Probit_dtransf_df :: "Probit \<Rightarrow> dbl \<Rightarrow> dbl" where
  "Probit_dtransf_df self f =
     dmul (std_norm_pdf_d (dmul f (Num (param_value (nu self)))))
          (Num (param_value (nu self)))"

text \<open>
  \<^verbatim>\<open>if reset: self.nu.gradient = gradient\<close>

  \<^verbatim>\<open>else: self.nu.gradient += gradient\<close>
\<close>

definition update_gradients :: "Probit \<Rightarrow> real \<Rightarrow> bool \<Rightarrow> Probit" where
  "update_gradients self g reset =
     (if reset then self\<lparr>nu := (nu self)\<lparr>gradient := g\<rparr>\<rparr>
      else self\<lparr>nu := (nu self)\<lparr>gradient := gradient (nu self) + g\<rparr>\<rparr>)"

text \<open>\<^verbatim>\<open>self.nu.gradient = [0]\<close>: the one entry of the gradient of the scalar \<open>nu\<close>.\<close>

definition reset_gradients :: "Probit \<Rightarrow> Probit" where
  "reset_gradients self = self\<lparr>nu := (nu self)\<lparr>gradient := 0\<rparr>\<rparr>"

subsection \<open>classes Cloglog and Log\<close>

text \<open>\<^verbatim>\<open>def transf(self,f): ef = safe_exp(f); return 1-np.exp(-ef)\<close>\<close>

definition Cloglog_transf :: "real \<Rightarrow> dbl \<Rightarrow> dbl" where
  "Cloglog_transf cap f = (let ef = safe_exp cap f in dsub (Num 1) (np_exp (dneg ef)))"

text \<open>
  The closed forms of the specification, \<open>exp(f)\<close> and \<open>1 - exp(-exp(f))\<close>, computed on
  doubles with the plain exponential.
\<close>

definition Log_closed_form :: "dbl \<Rightarrow> dbl" where
  "Log_closed_form f = np_exp f"

definition Cloglog_closed_form :: "dbl \<Rightarrow> dbl" where
  "Cloglog_closed_form f = dsub (Num 1) (np_exp (dneg (np_exp f)))"

definition Log_transf :: "real \<Rightarrow> dbl \<Rightarrow> dbl" where
  "Log_transf cap f = safe_exp cap f"

definition Log_dtransf_df :: "real \<Rightarrow> dbl \<Rightarrow> dbl" where
  "Log_dtransf_df cap f = safe_exp cap f"

definition Log_d2transf_df2 :: "real \<Rightarrow> dbl \<Rightarrow> dbl" where
  "Log_d2transf_df2 cap f = safe_exp cap f"

definition Log_d3transf_df3 :: "real \<Rightarrow> dbl \<Rightarrow> dbl" where
  "Log_d3transf_df3 cap f = safe_exp cap f"

subsection \<open>class Heaviside\<close>

text \<open>
  \<^verbatim>\<open>def transf(self,f): return np.where(f>0, 1, 0)\<close> gives an integer for each entry
  of \<open>f\<close>; \<open>Heaviside_transf\<close> is the entry, \<open>Heaviside_transf_array\<close> the array.
  \<open>dtransf_df\<close> and \<open>d2transf_df2\<close> raise with a message. The class does not define
  \<open>d3transf_df3\<close>: the call resolves to the method of the base class.
\<close>

definition Heaviside_transf :: "real \<Rightarrow> int" where
  "Heaviside_transf f = (if f > 0 then 1 else 0)"

definition Heaviside_transf_array :: "real list \<Rightarrow> int list" where
  "Heaviside_transf_array fs = map Heaviside_transf fs"

definition Heaviside_dtransf_df :: "real \<Rightarrow> exn + real" where
  "Heaviside_dtransf_df f = Inl (NotImplementedError ''This function is not differentiable!'')"

definition Heaviside_d2transf_df2 :: "real \<Rightarrow> exn + real" where
  "Heaviside_d2transf_df2 f = Inl (NotImplementedError ''This function is not differentiable!'')"

definition Heaviside_d3transf_df3 :: "real \<Rightarrow> exn + real" where
  "Heaviside_d3transf_df3 = GPTransformation_d3transf_df3"

section \<open>Properties\<close>

subsection \<open>Partial arithmetic\<close>

lemma obind_Some [simp]: "obind (Some a) k = k a"
  by (simp add: obind_def)

lemma obind_None [simp]: "obind None k = None"
  by (simp add: obind_def)

lemma fdiv_Some: "b \<noteq> 0 \<Longrightarrow> fdiv a b = Some (a / b)"
  by (simp add: fdiv_def)

subsection \<open>The standard normal distribution function\<close>

text \<open>
  The series of \<open>cdf_series\<close> converges everywhere, by comparison with the series of the
  exponential, and may be differentiated term by term. It satisfies
  \<open>g t + 2 * t * g' t = exp (- t / 2)\<close>, which makes the density the derivative of
  \<open>std_norm_cdf\<close>.
\<close>

lemma exp_term_norm: "norm (((t::real) / 2) ^ n /\<^sub>R fact n) = (\<bar>t\<bar> / 2) ^ n / fact n"
  by (simp add: power_abs field_simps)

lemma exp_term_eq: "(- 1 / 2) ^ n / fact n * t ^ n = (- (t::real) / 2) ^ n /\<^sub>R fact n"
proof -
  have "(- t / 2) ^ n = ((- 1 / 2) * t) ^ n"
    by simp
  also have "\<dots> = (- 1 / 2) ^ n * t ^ n"
    by (rule power_mult_distrib)
  finally have e: "(- t / 2) ^ n = (- 1 / 2) ^ n * t ^ n" .
  show ?thesis unfolding e by (simp add: field_simps)
qed

lemma cdf_coeff_norm:
  "norm (cdf_coeff n * t ^ n) = (\<bar>t\<bar> / 2) ^ n / fact n / (2 * real n + 1)"
proof -
  have "\<bar>2 * real n + 1\<bar> = 2 * real n + 1" by simp
  then show ?thesis
    by (simp add: cdf_coeff_def abs_mult power_abs power_divide)
qed

lemma cdf_coeff_summable: "summable (\<lambda>n. cdf_coeff n * t ^ n)"
proof (rule summable_comparison_test')
  show "summable (\<lambda>n. norm ((t / 2) ^ n /\<^sub>R fact n))"
    by (rule summable_norm_exp)
next
  fix n :: nat
  define A where "A = (\<bar>t\<bar> / 2) ^ n / fact n"
  have A: "0 \<le> A" by (simp add: A_def)
  have "norm (cdf_coeff n * t ^ n) = A / (2 * real n + 1)"
    unfolding A_def by (rule cdf_coeff_norm)
  also have "\<dots> \<le> A / 1"
    using A by (intro divide_left_mono) simp_all
  finally show "norm (cdf_coeff n * t ^ n) \<le> norm ((t / 2) ^ n /\<^sub>R fact n)"
    unfolding exp_term_norm A_def by simp
qed

lemma DERIV_cdf_series:
  "DERIV cdf_series t :> (\<Sum>n. diffs cdf_coeff n * t ^ n)"
  unfolding cdf_series_def
  by (rule termdiffs_strong_converges_everywhere) (rule cdf_coeff_summable)

lemma cdf_coeff_odd: "(2 * real n + 1) * cdf_coeff n = (- 1 / 2) ^ n / fact n"
proof -
  have "2 * real n + 1 \<noteq> 0" by (simp add: add_nonneg_eq_0_iff)
  then show ?thesis by (simp add: cdf_coeff_def)
qed

lemma cdf_series_ode:
  "cdf_series t + 2 * t * (\<Sum>n. diffs cdf_coeff n * t ^ n) = exp (- t / 2)"
proof -
  define D where "D = (\<Sum>n. diffs cdf_coeff n * t ^ n)"
  define h where "h = (\<lambda>n. real n * cdf_coeff n * t ^ n)"
  have s0: "(\<lambda>n. cdf_coeff n * t ^ n) sums cdf_series t"
    unfolding cdf_series_def by (rule summable_sums [OF cdf_coeff_summable])
  have "summable (\<lambda>n. diffs cdf_coeff n * t ^ n)"
    by (rule termdiff_converges_all) (rule cdf_coeff_summable)
  then have "(\<lambda>n. diffs cdf_coeff n * t ^ n) sums D"
    unfolding D_def by (rule summable_sums)
  then have "(\<lambda>n. t * (diffs cdf_coeff n * t ^ n)) sums (t * D)"
    by (rule sums_mult)
  moreover have "(\<lambda>n. t * (diffs cdf_coeff n * t ^ n)) = (\<lambda>n. h (Suc n))"
    by (rule ext) (simp add: diffs_def h_def algebra_simps)
  ultimately have "(\<lambda>n. h (Suc n)) sums (t * D)"
    by simp
  then have "h sums (t * D + h 0)"
    by (rule sums_Suc)
  then have s1: "h sums (t * D)"
    by (simp add: h_def)
  have "(\<lambda>n. cdf_coeff n * t ^ n + 2 * h n) sums (cdf_series t + 2 * (t * D))"
    by (intro sums_add s0 sums_mult s1)
  moreover have "(\<lambda>n. cdf_coeff n * t ^ n + 2 * h n) = (\<lambda>n. (- t / 2) ^ n /\<^sub>R fact n)"
  proof (rule ext)
    fix n
    have "cdf_coeff n * t ^ n + 2 * h n = (2 * real n + 1) * cdf_coeff n * t ^ n"
      by (simp add: h_def algebra_simps)
    also have "\<dots> = (- 1 / 2) ^ n / fact n * t ^ n"
      by (simp only: cdf_coeff_odd)
    also have "\<dots> = (- t / 2) ^ n /\<^sub>R fact n"
      by (rule exp_term_eq)
    finally show "cdf_coeff n * t ^ n + 2 * h n = (- t / 2) ^ n /\<^sub>R fact n" .
  qed
  ultimately have "(\<lambda>n. (- t / 2) ^ n /\<^sub>R fact n) sums (cdf_series t + 2 * (t * D))"
    by simp
  then have "cdf_series t + 2 * (t * D) = exp (- t / 2)"
    using exp_converges [of "- t / 2"] by (rule sums_unique2)
  then show ?thesis by (simp add: D_def mult.assoc)
qed

lemma std_norm_cdf_zero: "std_norm_cdf 0 = 1 / 2"
  by (simp add: std_norm_cdf_def)

lemma DERIV_std_norm_cdf: "DERIV std_norm_cdf x :> std_norm_pdf x"
proof -
  define D where "D = (\<Sum>n. diffs cdf_coeff n * (x\<^sup>2) ^ n)"
  have d1: "DERIV (\<lambda>y. cdf_series (y\<^sup>2)) x :> D * (2 * x)"
    unfolding D_def
    by (rule DERIV_chain2 [OF DERIV_cdf_series]) (auto intro!: derivative_eq_intros)
  have "DERIV (\<lambda>y. 1 / 2 + y * cdf_series (y\<^sup>2) / sqrt (2 * pi)) x
          :> (1 * cdf_series (x\<^sup>2) + x * (D * (2 * x))) / sqrt (2 * pi)"
    by (auto intro!: derivative_eq_intros d1 simp: field_simps)
  moreover have "1 * cdf_series (x\<^sup>2) + x * (D * (2 * x)) = exp (- (x\<^sup>2) / 2)"
    using cdf_series_ode [of "x\<^sup>2"] by (simp add: D_def power2_eq_square algebra_simps)
  ultimately have "DERIV (\<lambda>y. 1 / 2 + y * cdf_series (y\<^sup>2) / sqrt (2 * pi)) x
          :> std_norm_pdf x"
    by (simp add: std_norm_pdf_def)
  moreover have "std_norm_cdf = (\<lambda>y. 1 / 2 + y * cdf_series (y\<^sup>2) / sqrt (2 * pi))"
    by (rule ext) (simp add: std_norm_cdf_def)
  ultimately show ?thesis by simp
qed

lemma std_norm_cdf_unique:
  assumes d: "\<And>x. DERIV F x :> std_norm_pdf x" and z: "F 0 = 1 / 2"
  shows "F x = std_norm_cdf x"
proof -
  define G where "G = (\<lambda>y. F y - std_norm_cdf y)"
  have "\<forall>y. DERIV G y :> 0"
    unfolding G_def using DERIV_diff [OF d DERIV_std_norm_cdf] by simp
  then have "G x = G 0"
    by (rule DERIV_isconst_all)
  then show ?thesis by (simp add: G_def z std_norm_cdf_zero)
qed

lemma std_norm_cdf_symmetric: "std_norm_cdf (- x) = 1 - std_norm_cdf x"
  by (simp add: std_norm_cdf_def)

lemma std_norm_pdf_pos: "0 < std_norm_pdf x"
  by (simp add: std_norm_pdf_def)

lemma std_norm_cdf_strict_mono:
  assumes "a < b"
  shows "std_norm_cdf a < std_norm_cdf b"
proof (rule DERIV_pos_imp_increasing [OF assms])
  fix x
  show "\<exists>y. DERIV std_norm_cdf x :> y \<and> 0 < y"
    using DERIV_std_norm_cdf std_norm_pdf_pos by blast
qed

subsection \<open>The range of doubles\<close>

text \<open>
  The two thresholds of \<open>rnd\<close> are the midpoints next to the largest and to the least
  positive double. \<open>rnd\<close> is monotone, and the exponential is bounded against powers
  of two through \<open>5 / 2 \<le> exp 1 \<le> 11 / 4\<close>.
\<close>

lemma float_under_pos: "0 < float_under"
  by (simp add: float_under_def)

lemma float_under_less_half: "float_under < 1 / 2"
  by (simp add: float_under_def)

lemma float_over_gt_one: "1 < float_over"
  by (simp add: float_over_def)

lemma float_thresholds:
  "float_over = float64_value 2046 (2 ^ 52 - 1) + 2 ^ 970
   \<and> float_under = float64_value 0 1 / 2"
  by (simp add: float_over_def float_under_def float64_value_def)

lemma rnd_Num: "float_under < \<bar>x\<bar> \<Longrightarrow> \<bar>x\<bar> < float_over \<Longrightarrow> rnd x = Num x"
  by (auto simp add: rnd_def)

lemma rnd_zero: "\<bar>x\<bar> \<le> float_under \<Longrightarrow> rnd x = Num 0"
  using float_under_pos float_under_less_half float_over_gt_one
  by (auto simp add: rnd_def)

lemma rnd_unit: "0 \<le> x \<Longrightarrow> x \<le> 1 \<Longrightarrow> rnd x = Num 0 \<or> rnd x = Num x \<and> float_under < x"
  using float_over_gt_one by (auto simp add: rnd_def)

lemma rnd_below_over:
  "0 \<le> x \<Longrightarrow> x < float_over \<Longrightarrow> rnd x = Num 0 \<or> rnd x = Num x \<and> float_under < x"
  using float_over_gt_one by (auto simp add: rnd_def)

lemma rnd_above_under: "float_under < x \<Longrightarrow> rnd x = PInf \<or> rnd x = Num x"
  using float_under_pos float_over_gt_one by (auto simp add: rnd_def)

lemma rnd_nonneg: "0 \<le> x \<Longrightarrow> dle (Num 0) (rnd x)"
  using float_under_pos float_over_gt_one by (auto simp add: rnd_def)

lemma rnd_mono: "x \<le> y \<Longrightarrow> dle (rnd x) (rnd y)"
  using float_under_pos float_over_gt_one by (auto simp add: rnd_def)

lemma exp_one_upper: "exp (1::real) \<le> 11 / 4"
proof -
  have "exp (1 / 64 :: real) \<le> 1 + 1 / 64 + (1 / 64)\<^sup>2"
    by (rule exp_bound) simp_all
  then have b: "exp (1 / 64 :: real) \<le> 4161 / 4096"
    by (simp add: power2_eq_square)
  have "exp (1::real) = exp (of_nat 64 * (1 / 64))"
    by simp
  also have "\<dots> = exp (1 / 64) ^ 64"
    by (rule exp_of_nat_mult)
  also have "\<dots> \<le> (4161 / 4096) ^ 64"
    by (rule power_mono [OF b]) simp
  also have "\<dots> \<le> 11 / 4"
    by (simp add: power_divide)
  finally show ?thesis .
qed

lemma exp_one_lower: "5 / 2 \<le> exp (1::real)"
  using exp_lower_Taylor_quadratic [of "1::real"] by simp

lemma float_over_bounds: "2 ^ 1023 \<le> float_over \<and> float_over < 2 ^ 1024"
proof -
  have "(2::real) ^ 970 \<le> 2 ^ 1023"
    by (rule power_increasing) simp_all
  moreover have "(2::real) ^ 1024 = 2 * 2 ^ 1023"
    by (simp only: power_Suc [symmetric]) simp
  moreover have "(0::real) < 2 ^ 970"
    by (rule zero_less_power) simp
  ultimately show ?thesis
    unfolding float_over_def by linarith
qed

lemma exp_100_upper: "exp (100::real) \<le> 2 ^ 146"
proof -
  have "exp (100::real) = exp (of_nat 100 * 1)" by simp
  also have "\<dots> = exp 1 ^ 100" by (rule exp_of_nat_mult)
  also have "\<dots> \<le> (11 / 4) ^ 100" by (rule power_mono [OF exp_one_upper]) simp
  also have "\<dots> \<le> 2 ^ 146" by (simp add: power_divide)
  finally show ?thesis .
qed

lemma exp_100_lower: "2 ^ 132 \<le> exp (100::real)"
proof -
  have "(2::real) ^ 132 \<le> (5 / 2) ^ 100" by (simp add: power_divide)
  also have "\<dots> \<le> exp 1 ^ 100" by (rule power_mono [OF exp_one_lower]) simp
  also have "\<dots> = exp (of_nat 100 * 1)" by (rule exp_of_nat_mult [symmetric])
  finally show ?thesis by simp
qed

lemma exp_700_upper: "exp (700::real) \<le> 2 ^ 1022"
proof -
  have "exp (700::real) = exp (of_nat 7 * 100)" by simp
  also have "\<dots> = exp 100 ^ 7" by (rule exp_of_nat_mult)
  also have "\<dots> \<le> (2 ^ 146) ^ 7" by (rule power_mono [OF exp_100_upper]) simp
  also have "\<dots> = 2 ^ 1022" by (simp only: power_mult [symmetric]) simp
  finally show ?thesis .
qed

lemma exp_1000_lower: "2 ^ 1320 \<le> exp (1000::real)"
proof -
  have "(2::real) ^ 1320 = (2 ^ 132) ^ 10" by (simp only: power_mult [symmetric]) simp
  also have "\<dots> \<le> exp 100 ^ 10" by (rule power_mono [OF exp_100_lower]) simp
  also have "\<dots> = exp (of_nat 10 * 100)" by (rule exp_of_nat_mult [symmetric])
  finally show ?thesis by simp
qed

lemma exp_700_finite: "exp (700::real) < float_over"
proof -
  have "(2::real) ^ 1022 < 2 ^ 1023" by (rule power_strict_increasing) simp_all
  then show ?thesis using exp_700_upper float_over_bounds [THEN conjunct1] by linarith
qed

lemma exp_neg_700_normal: "float_under < exp (- 700 :: real)"
proof -
  have "(2::real) ^ 1022 < 2 ^ 1075" by (rule power_strict_increasing) simp_all
  then have "exp (700::real) < 2 ^ 1075" using exp_700_upper by linarith
  then have "1 / 2 ^ 1075 < 1 / exp (700::real)"
    by (intro divide_strict_left_mono) simp_all
  then show ?thesis
    by (simp only: float_under_def exp_minus inverse_eq_divide)
qed

lemma exp_1000_overflows: "float_over \<le> exp (1000::real)"
proof -
  have "(2::real) ^ 1024 \<le> 2 ^ 1320" by (rule power_increasing) simp_all
  then show ?thesis using exp_1000_lower float_over_bounds [THEN conjunct2] by linarith
qed

lemma exp_neg_1000_underflows: "exp (- 1000 :: real) \<le> float_under"
proof -
  have "(2::real) ^ 1075 \<le> 2 ^ 1320" by (rule power_increasing) simp_all
  then have "(2::real) ^ 1075 \<le> exp 1000" using exp_1000_lower by linarith
  then have "1 / exp (1000::real) \<le> 1 / 2 ^ 1075"
    by (intro divide_left_mono) simp_all
  then show ?thesis
    by (simp only: float_under_def exp_minus inverse_eq_divide)
qed

subsection \<open>Heaviside\<close>

text \<open>
  C1. Each derivative operation of \<open>Heaviside\<close> (\<open>dtransf_df\<close>, \<open>d2transf_df2\<close> and the
  inherited \<open>d3transf_df3\<close>) raises \<open>NotImplementedError\<close> for every input \<open>f\<close>,
  whatever \<open>f\<close> is, and so never returns a number.
\<close>

theorem Heaviside_derivatives_raise:
  "Heaviside_dtransf_df f = Inl (NotImplementedError ''This function is not differentiable!'')
   \<and> Heaviside_d2transf_df2 f = Inl (NotImplementedError ''This function is not differentiable!'')
   \<and> Heaviside_d3transf_df3 f = Inl (NotImplementedError [])
   \<and> isl (Heaviside_dtransf_df f) \<and> isl (Heaviside_d2transf_df2 f)
   \<and> isl (Heaviside_d3transf_df3 f)"
  by (simp add: Heaviside_dtransf_df_def Heaviside_d2transf_df2_def
      Heaviside_d3transf_df3_def GPTransformation_d3transf_df3_def)

text \<open>
  C6. \<open>Heaviside.transf\<close> returns \<open>1\<close> where \<open>f > 0\<close> and \<open>0\<close> elsewhere, on a number
  and entry by entry on an array: \<open>1\<close> at \<open>0.5\<close>, \<open>0\<close> at \<open>-0.5\<close> and at \<open>0\<close>, and never
  anything but \<open>0\<close> or \<open>1\<close>.
\<close>

theorem Heaviside_transf_step:
  "Heaviside_transf f = (if f > 0 then 1 else 0)
   \<and> Heaviside_transf (1 / 2) = 1
   \<and> Heaviside_transf (- 1 / 2) = 0
   \<and> Heaviside_transf 0 = 0
   \<and> (Heaviside_transf f = 0 \<or> Heaviside_transf f = 1)
   \<and> Heaviside_transf_array fs = map (\<lambda>x. if x > 0 then 1 else 0) fs
   \<and> set (Heaviside_transf_array fs) \<subseteq> {0, 1}"
  by (auto simp add: Heaviside_transf_def Heaviside_transf_array_def)

subsection \<open>SigmoidalInverse\<close>

lemma SigmoidalInverse_f_value:
  assumes "x \<noteq> 0"
  shows "SigmoidalInverse_f x = Some ((1 - exp (- 1 / x)) / (1 + exp (- 1 / x)))"
proof -
  have pos: "1 + exp (- 1 / x) \<noteq> 0"
    using exp_gt_zero [of "- 1 / x"] by linarith
  have "2 / (1 + exp (- 1 / x)) - 1 = (1 - exp (- 1 / x)) / (1 + exp (- 1 / x))"
    using pos by (simp add: field_simps)
  then show ?thesis
    using assms pos by (simp add: SigmoidalInverse_f_def fdiv_Some)
qed

lemma SigmoidalInverse_finv_value:
  assumes "u > 0" "u \<noteq> 1"
  shows "SigmoidalInverse_finv ((1 - u) / (1 + u)) = Some (- 1 / ln u)"
proof -
  have u1: "1 + u \<noteq> 0" using assms by linarith
  have s: "(1 - u) / (1 + u) + 1 = 2 / (1 + u)"
    using u1 by (simp add: field_simps)
  have "fdiv 2 ((1 - u) / (1 + u) + 1) = Some (2 / (2 / (1 + u)))"
    unfolding s using u1 by (simp add: fdiv_def)
  then have a: "fdiv 2 ((1 - u) / (1 + u) + 1) = Some (1 + u)"
    by simp
  have b: "flog (1 + u - 1) = Some (ln u)"
    using assms by (simp add: flog_def)
  have c: "fdiv (- 1) (ln u) = Some (- 1 / ln u)"
    using assms by (simp add: fdiv_def)
  show ?thesis
    unfolding SigmoidalInverse_finv_def by (simp only: a obind_Some b c)
qed

text \<open>
  C2. For every nonzero \<open>x\<close>, \<open>f x\<close> is a number of the open interval \<open>(-1, 1)\<close> other
  than \<open>0\<close>, where \<open>finv\<close> is defined, and \<open>finv (f x)\<close> is \<open>x\<close>, exactly in real
  arithmetic.
\<close>

theorem SigmoidalInverse_finv_f:
  assumes "x \<noteq> 0"
  shows "\<exists>y. SigmoidalInverse_f x = Some y \<and> - 1 < y \<and> y < 1 \<and> y \<noteq> 0
           \<and> SigmoidalInverse_finv y = Some x"
proof -
  define u where "u = exp (- 1 / x)"
  have u: "0 < u" by (simp add: u_def)
  have u1: "u \<noteq> 1" using assms by (simp add: u_def)
  have lnu: "ln u = - 1 / x" by (simp add: u_def)
  define y where "y = (1 - u) / (1 + u)"
  have fy: "SigmoidalInverse_f x = Some y"
    unfolding y_def u_def by (rule SigmoidalInverse_f_value [OF assms])
  have "SigmoidalInverse_finv y = Some (- 1 / ln u)"
    unfolding y_def by (rule SigmoidalInverse_finv_value [OF u u1])
  also have "- 1 / ln u = x"
    unfolding lnu using assms by simp
  finally have inv: "SigmoidalInverse_finv y = Some x" .
  have lo: "- 1 < y" using u by (simp add: y_def field_simps)
  have hi: "y < 1" using u by (simp add: y_def field_simps)
  have nz: "y \<noteq> 0" using u u1 by (simp add: y_def)
  show ?thesis using fy lo hi nz inv by blast
qed

theorem SigmoidalInverse_finv_f_witness:
  "\<exists>y. SigmoidalInverse_f 1 = Some y \<and> - 1 < y \<and> y < 1 \<and> y \<noteq> 0
         \<and> SigmoidalInverse_finv y = Some 1"
  using SigmoidalInverse_finv_f [of 1] by simp

lemma float_eps_is_double: "float_eps = float64_value 971 0 \<and> float64_fields 971 0"
  by (simp add: float_eps_def float64_value_def float64_fields_def)

text \<open>
  C8, as stated, fails: the value that \<open>initialize\<close> writes over a zero is the machine
  epsilon \<open>1 / 2 ^ 52\<close>, and the subnormal double with fraction field \<open>1\<close> is positive and
  smaller.
\<close>

theorem initialize_not_smallest_positive:
  "fst (initialize [0] []) = [1 / 2 ^ 52]
   \<and> float64_fields 0 1
   \<and> 0 < float64_value 0 1
   \<and> float64_value 0 1 < 1 / 2 ^ 52
   \<and> float64_fields 1 0
   \<and> 0 < float64_value 1 0
   \<and> float64_value 1 0 < 1 / 2 ^ 52"
  by (simp add: initialize_def float_eps_def float64_value_def float64_fields_def)

text \<open>
  C8, amended. \<open>initialize\<close> returns the array with every zero entry replaced by the
  machine epsilon \<open>np.finfo(float).eps = 1 / 2 ^ 52\<close> and every other entry unchanged, so the
  result has no zero entry; it prints one warning line when the array had a zero
  and nothing otherwise; it always returns.
\<close>

theorem initialize_replaces_zeros:
  "fst (initialize f out) = map (\<lambda>x. if x = 0 then float_eps else x) f
   \<and> length (fst (initialize f out)) = length f
   \<and> (\<forall>i < length f. f ! i = 0 \<longrightarrow> fst (initialize f out) ! i = float_eps)
   \<and> (\<forall>i < length f. f ! i \<noteq> 0 \<longrightarrow> fst (initialize f out) ! i = f ! i)
   \<and> 0 \<notin> set (fst (initialize f out))
   \<and> (0 \<in> set f \<longrightarrow>
        snd (initialize f out) = out @ [''Warning: changing parameters to satisfy constraints''])
   \<and> (0 \<notin> set f \<longrightarrow> snd (initialize f out) = out)
   \<and> float_eps = 1 / 2 ^ 52"
proof -
  have m: "fst (initialize f out) = map (\<lambda>x. if x = 0 then float_eps else x) f"
    by (simp add: initialize_def Let_def)
  have z: "0 \<notin> set (fst (initialize f out))"
    unfolding m by (auto simp add: float_eps_def)
  have w: "snd (initialize f out)
      = (if 0 \<in> set f then out @ [''Warning: changing parameters to satisfy constraints'']
         else out)"
    by (auto simp add: initialize_def Let_def list_ex_iff)
  show ?thesis
    using z w by (simp add: m float_eps_def)
qed

theorem initialize_replaces_zeros_witness:
  "fst (initialize [0, 3, 0] []) = [1 / 2 ^ 52, 3, 1 / 2 ^ 52]
   \<and> snd (initialize [0, 3, 0] []) = [''Warning: changing parameters to satisfy constraints'']
   \<and> snd (initialize [3] []) = []"
  using initialize_replaces_zeros [of "[0, 3, 0]" "[]"] initialize_replaces_zeros [of "[3]" "[]"]
  by simp

subsection \<open>Log and Cloglog\<close>

lemma Log_transf_Num: "Log_transf cap (Num x) = rnd (exp (min x cap))"
  by (simp add: Log_transf_def safe_exp_def)

text \<open>
  C3, as stated, fails: at \<open>f = -1000\<close> the exponential underflows and \<open>Log.transf\<close>
  returns exactly \<open>0\<close>, which is not positive.
\<close>

theorem Log_transf_underflow:
  "Log_transf 700 (Num (- 1000)) = Num 0
   \<and> \<not> dlt (Num 0) (Log_transf 700 (Num (- 1000)))"
proof -
  have "rnd (exp (- 1000)) = Num 0"
    using exp_neg_1000_underflows by (intro rnd_zero) simp
  then have "Log_transf 700 (Num (- 1000)) = Num 0"
    by (simp add: Log_transf_Num)
  then show ?thesis by simp
qed

text \<open>
  C3, amended. For the \<open>Log\<close> link \<open>dtransf_df f\<close> is the same double as \<open>transf f\<close> for
  every input \<open>f\<close>; \<open>transf f\<close> is never negative for a finite \<open>f\<close>, and it is positive
  for every finite \<open>f\<close> from \<open>-700\<close> on (the clamp limit being no lower).
\<close>

theorem Log_dtransf_df_is_transf:
  "Log_dtransf_df cap f = Log_transf cap f
   \<and> dle (Num 0) (Log_transf cap (Num x))
   \<and> (- 700 \<le> x \<and> - 700 \<le> cap \<longrightarrow> dlt (Num 0) (Log_transf cap (Num x)))"
proof (intro conjI impI)
  show "Log_dtransf_df cap f = Log_transf cap f"
    by (simp add: Log_dtransf_df_def Log_transf_def)
  show "dle (Num 0) (Log_transf cap (Num x))"
    unfolding Log_transf_Num by (rule rnd_nonneg) simp
  assume a: "- 700 \<le> x \<and> - 700 \<le> cap"
  define m where "m = min x cap"
  have "- 700 \<le> m" using a by (simp add: m_def)
  then have "exp (- 700) \<le> exp m" by simp
  then have big: "float_under < exp m"
    using exp_neg_700_normal by linarith
  have "rnd (exp m) = PInf \<or> rnd (exp m) = Num (exp m)"
    using big by (rule rnd_above_under)
  then have "dlt (Num 0) (rnd (exp m))"
    by auto
  then show "dlt (Num 0) (Log_transf cap (Num x))"
    by (simp add: Log_transf_Num m_def)
qed

theorem Log_dtransf_df_is_transf_witness:
  "Log_dtransf_df 700 (Num 0) = Log_transf 700 (Num 0)
   \<and> dlt (Num 0) (Log_transf 700 (Num 0))"
  using Log_dtransf_df_is_transf [of 700 "Num 0" 0] by simp

text \<open>Without the clamp the exponential overflows at \<open>f = 1000\<close>.\<close>

lemma Log_closed_form_overflows: "Log_closed_form (Num 1000) = PInf"
  using exp_1000_overflows by (simp add: Log_closed_form_def rnd_def)

lemma Cloglog_transf_Num:
  "Cloglog_transf cap (Num x)
     = dsub (Num 1) (np_exp (dneg (rnd (exp (min x cap)))))"
  by (simp add: Cloglog_transf_def safe_exp_def)

lemma one_minus_exp_neg_finite:
  assumes "0 \<le> e"
  shows "\<exists>y. dsub (Num 1) (np_exp (Num (- e))) = Num y \<and> 0 \<le> y \<and> y \<le> 1"
proof -
  have u: "0 \<le> exp (- e)" "exp (- e) \<le> 1" using assms by simp_all
  from rnd_unit [OF u] obtain z where z: "rnd (exp (- e)) = Num z" "0 \<le> z" "z \<le> 1"
    using u by auto
  have v: "0 \<le> 1 - z" "1 - z \<le> 1" using z by simp_all
  from rnd_unit [OF v] have "\<exists>y. rnd (1 - z) = Num y \<and> 0 \<le> y \<and> y \<le> 1"
    using v by auto
  then show ?thesis by (simp add: z)
qed

text \<open>
  C7. With a clamp limit \<open>cap\<close> of at least \<open>30\<close> whose exponential is in the range of
  doubles, \<open>transf\<close> of \<open>Log\<close> and of \<open>Cloglog\<close> returns a finite number, neither an
  infinity nor a NaN, for every finite \<open>f\<close>, \<open>f = 1000\<close> included; and for \<open>\<bar>f\<bar> < 30\<close> the
  clamp changes nothing: \<open>transf\<close> is the closed form computed without it, \<open>exp f\<close>
  itself for \<open>Log\<close>.
\<close>

theorem safe_exp_finite_and_exact:
  assumes cap: "30 \<le> cap" and fin: "exp cap < float_over"
  shows "(\<exists>y. Log_transf cap (Num x) = Num y \<and> 0 \<le> y \<and> y \<le> exp cap)
       \<and> (\<exists>y. Cloglog_transf cap (Num x) = Num y \<and> 0 \<le> y \<and> y \<le> 1)
       \<and> (\<bar>x\<bar> < 30 \<longrightarrow>
             Log_transf cap (Num x) = Log_closed_form (Num x)
             \<and> Log_transf cap (Num x) = Num (exp x)
             \<and> Cloglog_transf cap (Num x) = Cloglog_closed_form (Num x))"
proof (intro conjI impI)
  define m where "m = min x cap"
  have le: "exp m \<le> exp cap" by (simp add: m_def)
  then have lt: "exp m < float_over" using fin by linarith
  have r: "rnd (exp m) = Num 0 \<or> rnd (exp m) = Num (exp m)"
    using rnd_below_over [OF _ lt] by auto
  then obtain e where e: "rnd (exp m) = Num e" "0 \<le> e" "e \<le> exp cap"
    using le by auto
  show "\<exists>y. Log_transf cap (Num x) = Num y \<and> 0 \<le> y \<and> y \<le> exp cap"
    using e by (simp add: Log_transf_Num m_def)
  show "\<exists>y. Cloglog_transf cap (Num x) = Num y \<and> 0 \<le> y \<and> y \<le> 1"
    using one_minus_exp_neg_finite [OF e(2)] e(1) by (simp add: Cloglog_transf_Num m_def)
next
  assume x: "\<bar>x\<bar> < 30"
  then have mx: "min x cap = x" using cap by simp
  show "Log_transf cap (Num x) = Log_closed_form (Num x)"
    by (simp add: Log_transf_Num mx Log_closed_form_def)
  show "Cloglog_transf cap (Num x) = Cloglog_closed_form (Num x)"
    by (simp add: Cloglog_transf_Num mx Cloglog_closed_form_def)
  have "exp (- 700) \<le> exp x" using x by simp
  then have lo: "float_under < exp x" using exp_neg_700_normal by linarith
  have "exp x \<le> exp 700" using x by simp
  then have hi: "exp x < float_over" using exp_700_finite by linarith
  have "rnd (exp x) = Num (exp x)"
    using lo hi by (intro rnd_Num) simp_all
  then show "Log_transf cap (Num x) = Num (exp x)"
    by (simp add: Log_transf_Num mx)
qed

theorem safe_exp_finite_and_exact_witness:
  "(\<exists>y. Log_transf 700 (Num 1000) = Num y \<and> 0 \<le> y \<and> y \<le> exp 700)
   \<and> (\<exists>y. Cloglog_transf 700 (Num 1000) = Num y \<and> 0 \<le> y \<and> y \<le> 1)
   \<and> Log_transf 700 (Num 1) = Num (exp 1)
   \<and> Cloglog_transf 700 (Num 1) = Cloglog_closed_form (Num 1)"
proof -
  have c: "(30::real) \<le> 700" by simp
  show ?thesis
    using safe_exp_finite_and_exact [OF c exp_700_finite, of 1000]
      safe_exp_finite_and_exact [OF c exp_700_finite, of 1]
    by auto
qed

subsection \<open>Probit\<close>

text \<open>
  C9. \<open>update_gradients\<close> with \<open>reset\<close> true stores the given gradient in the
  accumulator of \<open>nu\<close>, with \<open>reset\<close> false adds it to the accumulator, and
  \<open>reset_gradients\<close> sets the accumulator to zero; the instance is otherwise as
  before, the value of \<open>nu\<close> in particular.
\<close>

theorem update_gradients_accumulator:
  "gradient (nu (update_gradients self g True)) = g
   \<and> gradient (nu (update_gradients self g False)) = gradient (nu self) + g
   \<and> gradient (nu (reset_gradients self)) = 0
   \<and> update_gradients self g reset
        = self\<lparr>nu := (nu self)\<lparr>gradient := gradient (nu (update_gradients self g reset))\<rparr>\<rparr>
   \<and> reset_gradients self = self\<lparr>nu := (nu self)\<lparr>gradient := 0\<rparr>\<rparr>
   \<and> param_value (nu (update_gradients self g reset)) = param_value (nu self)
   \<and> param_value (nu (reset_gradients self)) = param_value (nu self)
   \<and> param_fixed (nu (update_gradients self g reset)) = param_fixed (nu self)
   \<and> param_fixed (nu (reset_gradients self)) = param_fixed (nu self)
   \<and> name (update_gradients self g reset) = name self
   \<and> name (reset_gradients self) = name self"
  by (simp add: update_gradients_def reset_gradients_def)

lemma std_norm_cdf_mono: "a \<le> b \<Longrightarrow> std_norm_cdf a \<le> std_norm_cdf b"
  using std_norm_cdf_strict_mono [of a b] by (cases "a = b") simp_all

lemma sqrt_two_pi_ge_one: "1 \<le> sqrt (2 * pi)"
proof -
  have "1 \<le> 2 * pi" using pi_ge_two by linarith
  then show ?thesis by simp
qed

lemma std_norm_pdf_le_exp: "std_norm_pdf x \<le> exp (- (x\<^sup>2) / 2)"
proof -
  have "exp (- (x\<^sup>2) / 2) / sqrt (2 * pi) \<le> exp (- (x\<^sup>2) / 2) / 1"
    using sqrt_two_pi_ge_one by (intro divide_left_mono) simp_all
  then show ?thesis by (simp add: std_norm_pdf_def)
qed

lemma std_norm_pdf_le_one: "std_norm_pdf x \<le> 1"
proof -
  have "exp (- (x\<^sup>2) / 2) \<le> 1" by simp
  then show ?thesis using std_norm_pdf_le_exp [of x] by linarith
qed

lemma std_norm_cdf_d_unit:
  "\<exists>y. std_norm_cdf_d (Num x) = Num y \<and> 0 \<le> y \<and> y \<le> 1"
proof -
  define c where "c = max 0 (min 1 (std_norm_cdf x))"
  have c: "0 \<le> c" "c \<le> 1" by (simp_all add: c_def)
  from rnd_unit [OF c] show ?thesis using c by (auto simp add: c_def)
qed

lemma std_norm_cdf_d_mono:
  assumes "dle a b"
  shows "dle (std_norm_cdf_d a) (std_norm_cdf_d b)"
proof (cases a)
  case (Num x)
  note a = this
  obtain p where p: "std_norm_cdf_d (Num x) = Num p" "0 \<le> p" "p \<le> 1"
    using std_norm_cdf_d_unit [of x] by auto
  show ?thesis
  proof (cases b)
    case (Num y)
    then have "x \<le> y" using assms a by simp
    then have "max 0 (min 1 (std_norm_cdf x)) \<le> max 0 (min 1 (std_norm_cdf y))"
      using std_norm_cdf_mono [of x y] by auto
    then show ?thesis using a Num by (simp add: rnd_mono)
  next
    case PInf
    then show ?thesis using a p by simp
  next
    case NInf
    then show ?thesis using a assms by simp
  next
    case NaN
    then show ?thesis using a assms by simp
  qed
next
  case PInf
  then show ?thesis using assms by (cases b) simp_all
next
  case NInf
  show ?thesis
  proof (cases b)
    case (Num y)
    obtain q where "std_norm_cdf_d (Num y) = Num q" "0 \<le> q"
      using std_norm_cdf_d_unit [of y] by auto
    then show ?thesis using NInf Num by simp
  qed (use NInf assms in simp_all)
next
  case NaN
  then show ?thesis using assms by simp
qed

lemma std_norm_pdf_d_nonneg:
  assumes "a \<noteq> NaN"
  shows "\<exists>p. std_norm_pdf_d a = Num p \<and> 0 \<le> p"
proof (cases a)
  case (Num x)
  have u: "0 \<le> std_norm_pdf x" "std_norm_pdf x \<le> 1"
    using std_norm_pdf_pos [of x] std_norm_pdf_le_one [of x] by simp_all
  from rnd_unit [OF u] show ?thesis using u Num by auto
qed (use assms in simp_all)

lemma rnd_not_NaN: "rnd x \<noteq> NaN"
  by (simp add: rnd_def)

text \<open>
  C4. \<open>Probit.transf\<close> at \<open>0\<close> is \<open>0.5\<close>, whatever the value of \<open>nu\<close>.
\<close>

theorem Probit_transf_zero: "Probit_transf self (Num 0) = Num (1 / 2)"
proof -
  have z: "rnd 0 = Num 0"
    using float_under_pos by (intro rnd_zero) simp
  have h: "rnd (1 / 2) = Num (1 / 2)"
    using float_under_less_half float_over_gt_one by (intro rnd_Num) simp_all
  show ?thesis
    by (simp add: Probit_transf_def z std_norm_cdf_zero h)
qed

lemma float64_value_top:
  "float64_value 2046 0 = 2 ^ 1023 \<and> float64_value 2046 (2 ^ 51) = 3 * 2 ^ 1022"
  by (simp add: float64_value_def)

text \<open>
  C5, as stated, fails. With \<open>nu = 2\<close> the doubles \<open>2 ^ 1023\<close> and \<open>1.5 * 2 ^ 1023\<close> are
  different inputs, the product \<open>f * nu\<close> overflows to \<open>+inf\<close> for both, and \<open>transf\<close>
  returns \<open>1\<close> for both: it is not strictly increasing. At \<open>f = 30\<close> the density
  underflows and \<open>dtransf_df\<close> returns exactly \<open>0\<close>, which is not positive.
\<close>

theorem Probit_transf_saturates:
  "Probit_transf
     \<lparr>name = ''Probit'',
      nu = \<lparr>param_value = 2, gradient = 0, param_fixed = True,
            constraint = Logistic (- 100000) 100000\<rparr>\<rparr>
     (Num (float64_value 2046 0)) = Num 1
   \<and> Probit_transf
     \<lparr>name = ''Probit'',
      nu = \<lparr>param_value = 2, gradient = 0, param_fixed = True,
            constraint = Logistic (- 100000) 100000\<rparr>\<rparr>
     (Num (float64_value 2046 (2 ^ 51))) = Num 1
   \<and> float64_fields 2046 0 \<and> float64_fields 2046 (2 ^ 51)
   \<and> float64_value 2046 0 < float64_value 2046 (2 ^ 51)
   \<and> Probit_dtransf_df
     \<lparr>name = ''Probit'',
      nu = \<lparr>param_value = 2, gradient = 0, param_fixed = True,
            constraint = Logistic (- 100000) 100000\<rparr>\<rparr>
     (Num 30) = Num 0"
proof -
  define P where "P = \<lparr>name = ''Probit'',
      nu = \<lparr>param_value = 2, gradient = 0, param_fixed = True,
            constraint = Logistic (- 100000) 100000\<rparr>\<rparr>"
  have nuP: "param_value (nu P) = 2" by (simp add: P_def)
  have v1: "float64_value 2046 0 = 2 ^ 1023"
    and v2: "float64_value 2046 (2 ^ 51) = 3 * 2 ^ 1022"
    using float64_value_top by blast+
  have pw: "(0::real) < 2 ^ 1022" by simp
  have o1: "rnd (2 ^ 1023 * 2) = PInf"
  proof -
    have "(2::real) ^ 1024 = 2 ^ 1023 * 2"
      by (simp only: power_Suc2 [symmetric]) simp
    then have "float_over \<le> 2 ^ 1023 * 2"
      using float_over_bounds [THEN conjunct2] by linarith
    then show ?thesis by (simp only: rnd_def if_True)
  qed
  have o2: "rnd (3 * 2 ^ 1022 * 2) = PInf"
  proof -
    have "(2::real) ^ 1024 = 2 ^ 2 * 2 ^ 1022"
      by (simp only: power_add [symmetric]) simp
    then have "(2::real) ^ 1024 = 4 * 2 ^ 1022"
      by simp
    then have "float_over \<le> 3 * 2 ^ 1022 * 2"
      using pw float_over_bounds [THEN conjunct2] by linarith
    then show ?thesis by (simp only: rnd_def if_True)
  qed
  have lt: "(2::real) ^ 1023 < 3 * 2 ^ 1022"
  proof -
    have "(2::real) ^ 1023 = 2 * 2 ^ 1022"
      by (simp only: power_Suc [symmetric]) simp
    then show ?thesis using pw by linarith
  qed
  have "(60::real) < 2 ^ 1023" by simp
  then have "\<bar>60::real\<bar> < float_over" "float_under < \<bar>60::real\<bar>"
    using float_over_bounds [THEN conjunct1] float_under_less_half by simp_all
  then have "rnd 60 = Num 60"
    by (intro rnd_Num)
  then have r60: "rnd (30 * 2) = Num 60"
    by simp
  have "- ((60::real)\<^sup>2) / 2 \<le> - 1000" by simp
  then have "exp (- ((60::real)\<^sup>2) / 2) \<le> exp (- 1000)"
    by (simp only: exp_le_cancel_iff)
  then have "std_norm_pdf 60 \<le> float_under"
    using std_norm_pdf_le_exp [of 60] exp_neg_1000_underflows by linarith
  then have p0: "rnd (std_norm_pdf 60) = Num 0"
    using std_norm_pdf_pos [of 60] by (intro rnd_zero) simp
  have z: "rnd (0 * 2) = Num 0"
    using float_under_pos by (intro rnd_zero) simp
  have t1: "Probit_transf P (Num (float64_value 2046 0)) = Num 1"
    by (simp only: Probit_transf_def nuP v1 dmul.simps o1 std_norm_cdf_d.simps)
  have t2: "Probit_transf P (Num (float64_value 2046 (2 ^ 51))) = Num 1"
    by (simp only: Probit_transf_def nuP v2 dmul.simps o2 std_norm_cdf_d.simps)
  have t3: "Probit_dtransf_df P (Num 30) = Num 0"
    by (simp only: Probit_dtransf_df_def nuP dmul.simps r60 std_norm_pdf_d.simps p0 z)
  have t4: "float64_fields 2046 0 \<and> float64_fields 2046 (2 ^ 51)"
    by (simp add: float64_fields_def)
  have t5: "float64_value 2046 0 < float64_value 2046 (2 ^ 51)"
    by (simp only: v1 v2 lt)
  show ?thesis
    using t1 t2 t3 t4 t5 unfolding P_def by blast
qed

text \<open>
  C5, amended. With \<open>nu > 0\<close>, \<open>Probit.transf\<close> is monotone non-decreasing on the finite
  inputs: \<open>f1 \<le> f2\<close> gives \<open>transf f1 \<le> transf f2\<close>; and \<open>dtransf_df f\<close> is never
  negative.
\<close>

theorem Probit_transf_nondecreasing:
  assumes pos: "0 < param_value (nu self)" and le: "x1 \<le> x2"
  shows "dle (Probit_transf self (Num x1)) (Probit_transf self (Num x2))
         \<and> dle (Num 0) (Probit_dtransf_df self (Num x))"
proof
  have "x1 * param_value (nu self) \<le> x2 * param_value (nu self)"
    using pos le by simp
  then have "dle (rnd (x1 * param_value (nu self))) (rnd (x2 * param_value (nu self)))"
    by (rule rnd_mono)
  then show "dle (Probit_transf self (Num x1)) (Probit_transf self (Num x2))"
    unfolding Probit_transf_def dmul.simps by (rule std_norm_cdf_d_mono)
next
  obtain p where p: "std_norm_pdf_d (rnd (x * param_value (nu self))) = Num p" "0 \<le> p"
    using std_norm_pdf_d_nonneg [OF rnd_not_NaN] by blast
  have "0 \<le> p * param_value (nu self)"
    using p pos by simp
  then have "dle (Num 0) (rnd (p * param_value (nu self)))"
    by (rule rnd_nonneg)
  then show "dle (Num 0) (Probit_dtransf_df self (Num x))"
    by (simp add: Probit_dtransf_df_def p)
qed

theorem Probit_transf_nondecreasing_witness:
  "dle (Probit_transf
         \<lparr>name = ''Probit'',
          nu = \<lparr>param_value = 2, gradient = 0, param_fixed = True,
                constraint = Logistic (- 100000) 100000\<rparr>\<rparr> (Num 0))
       (Probit_transf
         \<lparr>name = ''Probit'',
          nu = \<lparr>param_value = 2, gradient = 0, param_fixed = True,
                constraint = Logistic (- 100000) 100000\<rparr>\<rparr> (Num 1))
   \<and> dle (Num 0)
       (Probit_dtransf_df
         \<lparr>name = ''Probit'',
          nu = \<lparr>param_value = 2, gradient = 0, param_fixed = True,
                constraint = Logistic (- 100000) 100000\<rparr>\<rparr> (Num 1))"
  using Probit_transf_nondecreasing
    [where ?self = "\<lparr>name = ''Probit'',
          nu = \<lparr>param_value = 2, gradient = 0, param_fixed = True,
                constraint = Logistic (- 100000) 100000\<rparr>\<rparr>"
       and ?x1.0 = 0 and ?x2.0 = 1 and ?x = 1]
  by simp

subsection \<open>Probit2\<close>

text \<open>
  C10. The constructor of \<open>Probit2\<close> raises \<open>TypeError\<close> for every \<open>nu\<close>: its call
  \<open>super(Probit, self)\<close> names the class \<open>Probit\<close>, of which a \<open>Probit2\<close> is not an
  instance. No instance of \<open>Probit2\<close> comes to exist, so none of its methods returns
  what \<open>Probit\<close> with parameter \<open>1 / nu\<close> returns. The constructor of \<open>Probit\<close>, which
  makes the same call, returns the instance.
\<close>

theorem Probit2_init_raises:
  "Probit2_init g0 nu0 fixed nm
     = Inl (TypeError ''super(type, obj): obj must be an instance or subtype of type'')
   \<and> Probit_init g0 nu0 fixed nm
     = Inr \<lparr>name = nm,
            nu = \<lparr>param_value = nu0, gradient = g0, param_fixed = fixed,
                  constraint = Logistic (- 100000) 100000\<rparr>\<rparr>"
  by (simp add: Probit2_init_def Probit_init_def GPTransformation_init_def py_super_def)

end
